theory Spec2Isabelle
  imports Main
begin

section \<open>JavaScript values and errors\<close>

text \<open>
  The values that reach the functions modelled here. A JavaScript number is modelled as an
  integer (the durations, counts and priorities of this program); \<open>JFunction\<close> is a
  callback, \<open>JOther\<close> any value that is neither a number, a string nor a function
  (\<open>null\<close>, an object, a boolean). An absent argument (\<open>undefined\<close>) is \<open>None\<close> of an
  option type at the place where it can occur.
\<close>

datatype jsval = JNumber int | JString string | JFunction | JOther

text \<open>
  The service \<open>dfpRefresh\<close> throws one class, \<open>DFPRefreshError\<close>, with three messages:
  "Invalid option '...'", "Priority '...' is not a number" and "No interval for given slot".
\<close>

datatype refresh_msg = InvalidOption string | PriorityNotANumber | NoIntervalForSlot

datatype error = TypeError | DFPDurationError string | DFPRefreshError refresh_msg

section \<open>The duration parser \<open>dfpParseDuration\<close>\<close>

text \<open>
  \<open>convertToMilliseconds(time, unit)\<close>: the \<open>console.assert\<close> only logs; a unit that is none
  of 'ms', 's', 'min' (also \<open>undefined\<close>, here \<open>None\<close>) falls through to the hours.
\<close>

definition convertToMilliseconds :: "int \<Rightarrow> string option \<Rightarrow> int" where
  "convertToMilliseconds time unit =
     (if unit = Some ''ms'' then time
      else if unit = Some ''s'' then time * 1000
      else if unit = Some ''min'' then time * 60 * 1000
      else time * 60 * 60 * 1000)"

definition is_digit :: "char \<Rightarrow> bool" where
  "is_digit c = (c \<in> set ''0123456789'')"

text \<open>\<open>parseInt(str, 10)\<close> on a string of decimal digits.\<close>

definition digit_value :: "char \<Rightarrow> int" where
  "digit_value c = int (of_char c) - 48"

definition parseInt10 :: "string \<Rightarrow> int" where
  "parseInt10 ds = foldl (\<lambda>a c. a * 10 + digit_value c) 0 ds"

text \<open>
  The optional group \<open>(m?s|min|h)?\<close> tried at the text that follows the digits: the
  alternatives from left to right, \<open>m?\<close> greedy, and no match of the group is \<open>None\<close>
  (the group is then \<open>undefined\<close> in the match array).
\<close>

definition match_unit :: "string \<Rightarrow> string option" where
  "match_unit r =
     (if take 2 r = ''ms'' then Some ''ms''
      else if take 1 r = ''s'' then Some ''s''
      else if take 3 r = ''min'' then Some ''min''
      else if take 1 r = ''h'' then Some ''h''
      else None)"

text \<open>
  \<open>interval.match(/(\d+)(m?s|min|h)?/)\<close>: the expression is not anchored, so the match
  starts at the first digit of the string; \<open>\d+\<close> takes the whole run of digits. The result
  is \<open>null\<close> (\<open>None\<close>) when the string has no digit, and otherwise the match array, with
  one entry for the whole match and one for each of the two groups.
\<close>

fun regex_match :: "string \<Rightarrow> string option list option" where
  "regex_match [] = None"
| "regex_match (c # cs) =
     (if is_digit c then
        (let ds = takeWhile is_digit (c # cs);
             u = match_unit (dropWhile is_digit (c # cs))
         in Some [Some (ds @ (case u of None \<Rightarrow> [] | Some x \<Rightarrow> x)), Some ds, u])
      else regex_match cs)"

definition group :: "string option list \<Rightarrow> nat \<Rightarrow> string option" where
  "group m i = (if i < length m then m ! i else None)"

definition convert :: "string option list \<Rightarrow> int" where
  "convert m =
     (let time = parseInt10 (case group m 1 of None \<Rightarrow> [] | Some ds \<Rightarrow> ds)
      in if length m = 2 then time else convertToMilliseconds time (group m 2))"

definition dfpParseDuration :: "jsval \<Rightarrow> error + int" where
  "dfpParseDuration interval =
     (case interval of
        JNumber n \<Rightarrow> Inr n
      | JString str \<Rightarrow>
          (case regex_match str of
             None \<Rightarrow> Inl (DFPDurationError str)
           | Some m \<Rightarrow> Inr (convert m))
      | JFunction \<Rightarrow> Inl TypeError
      | JOther \<Rightarrow> Inl TypeError)"

section \<open>The state of the \<open>dfpRefresh\<close> service\<close>

text \<open>
  A task is the pair \<open>{slot, deferred}\<close> built by \<open>dfpRefresh\<close>. A slot is identified by
  the property key it converts to (the code uses the slot as a key of \<open>intervals\<close>);
  \<open>None\<close> is the slot \<open>null\<close>. A deferred is identified by a number.
\<close>

record task =
  slot :: "string option"
  deferred :: nat

definition slot_key :: "string option \<Rightarrow> string" where
  "slot_key sl = (case sl of None \<Rightarrow> ''null'' | Some k \<Rightarrow> k)"

text \<open>
  The calls the service makes to the ad library, in order: \<open>RefreshAll\<close> is
  \<open>googletag.pubads().refresh()\<close> without argument; \<open>CmdPush ts\<close> is the function pushed
  to \<open>googletag.cmd\<close> that refreshes the slots of \<open>ts\<close> in one call and resolves the
  deferred of each task of \<open>ts\<close>.
\<close>

datatype call = RefreshAll | CmdPush "task list"

text \<open>The three callbacks the service hands to \<open>$interval\<close>.\<close>

datatype timer_fn = RefreshTask | BufferTask | SlotTask task

text \<open>
  The provider object \<open>self\<close>. The provider function assigns the first five properties; it
  never assigns a property \<open>intervals\<close>, which \<open>hasSlotInterval\<close> reads: \<open>self_intervals\<close>
  is that property, \<open>None\<close> when it is \<open>undefined\<close>.
\<close>

record provider =
  bufferInterval :: "int option"
  bufferBarrier :: "int option"
  oneShotBarrier :: bool
  refreshInterval :: "int option"
  priority :: "string \<rightharpoonup> int"
  self_intervals :: "(string \<rightharpoonup> nat option) option"

text \<open>
  The variables closed over by the service (\<open>buffer\<close>, \<open>intervals\<close>, the three flags of
  the sealed object \<open>isEnabled\<close>), the timers that \<open>$interval\<close> keeps running, and what
  the service has emitted. A timer handle is a number; \<open>null\<close> in \<open>intervals\<close> is
  \<open>Some None\<close>, an absent key is \<open>None\<close>.
\<close>

record state =
  self :: provider
  buffer :: "task option list"
  intervals :: "string \<rightharpoonup> nat option"
  isEnabled_refresh :: bool
  isEnabled_interval :: bool
  isEnabled_barrier :: bool
  timers :: "(nat \<times> timer_fn \<times> int option) list"
  next_timer :: nat
  next_deferred :: nat
  calls :: "call list"
  warnings :: "string list"

definition provider_defaults :: provider where
  "provider_defaults =
     \<lparr>bufferInterval = Some 1000, bufferBarrier = None, oneShotBarrier = True,
      refreshInterval = Some (60 * 60 * 1000),
      priority = [''refresh'' \<mapsto> 1, ''interval'' \<mapsto> 1, ''barrier'' \<mapsto> 1],
      self_intervals = None\<rparr>"

text \<open>The state that \<open>$get\<close> has built when it reaches its last statement, \<open>prioritize()\<close>.\<close>

definition state0 :: "provider \<Rightarrow> state" where
  "state0 p =
     \<lparr>self = p, buffer = [],
      intervals = [''refresh'' \<mapsto> None, ''buffer'' \<mapsto> None],
      isEnabled_refresh = (refreshInterval p \<noteq> None),
      isEnabled_interval = (bufferInterval p \<noteq> None),
      isEnabled_barrier = (bufferBarrier p \<noteq> None),
      timers = [], next_timer = 0, next_deferred = 0, calls = [], warnings = []\<rparr>"

section \<open>Objects and array methods\<close>

text \<open>\<open>Options\<close>, a frozen object: its keys are upper case, its values lower case.\<close>

definition Options :: "(string \<times> string) list" where
  "Options = [(''REFRESH'', ''refresh''), (''INTERVAL'', ''interval''), (''BARRIER'', ''barrier'')]"

text \<open>The property names every object inherits from \<open>Object.prototype\<close>; \<open>in\<close> finds them too.\<close>

definition object_prototype_keys :: "string list" where
  "object_prototype_keys =
     [''constructor'', ''hasOwnProperty'', ''isPrototypeOf'', ''propertyIsEnumerable'',
      ''toLocaleString'', ''toString'', ''valueOf'', ''__proto__'', ''__defineGetter__'',
      ''__defineSetter__'', ''__lookupGetter__'', ''__lookupSetter__'']"

text \<open>What reading \<open>isEnabled[key]\<close> gives: a flag, \<open>undefined\<close>, or an inherited member.\<close>

datatype flagval = Flag bool | Undefined | Inherited

definition truthy :: "flagval \<Rightarrow> bool" where
  "truthy v = (case v of Flag b \<Rightarrow> b | Undefined \<Rightarrow> False | Inherited \<Rightarrow> True)"

definition isEnabled_get :: "state \<Rightarrow> string \<Rightarrow> flagval" where
  "isEnabled_get s k =
     (if k = ''refresh'' then Flag (isEnabled_refresh s)
      else if k = ''interval'' then Flag (isEnabled_interval s)
      else if k = ''barrier'' then Flag (isEnabled_barrier s)
      else if k \<in> set object_prototype_keys then Inherited
      else Undefined)"

text \<open>\<open>Array.prototype.some\<close> and \<open>filter\<close> with a callback that may throw.\<close>

fun some_js :: "('a \<Rightarrow> error + flagval) \<Rightarrow> 'a list \<Rightarrow> error + bool" where
  "some_js f [] = Inr False"
| "some_js f (x # xs) =
     (case f x of
        Inl e \<Rightarrow> Inl e
      | Inr v \<Rightarrow> if truthy v then Inr True else some_js f xs)"

fun filter_js :: "('a \<Rightarrow> error + bool) \<Rightarrow> 'a list \<Rightarrow> error + 'a list" where
  "filter_js f [] = Inr []"
| "filter_js f (x # xs) =
     (case f x of
        Inl e \<Rightarrow> Inl e
      | Inr b \<Rightarrow>
          (case filter_js f xs of
             Inl e \<Rightarrow> Inl e
           | Inr ys \<Rightarrow> Inr (if b then x # ys else ys)))"

text \<open>
  A priority read from \<open>self.priority\<close>: a number or \<open>undefined\<close>; \<open>Math.max\<close> of
  anything with \<open>undefined\<close> is \<open>NaN\<close>, and \<open>NaN\<close> is not \<open>===\<close> to itself.
\<close>

datatype pval = PNum int | PUndefined | PNaN

definition priority_get :: "state \<Rightarrow> string \<Rightarrow> pval" where
  "priority_get s k = (case priority (self s) k of None \<Rightarrow> PUndefined | Some n \<Rightarrow> PNum n)"

fun math_max :: "pval \<Rightarrow> pval \<Rightarrow> pval" where
  "math_max (PNum a) (PNum b) = PNum (max a b)"
| "math_max a b = PNaN"

fun strict_eq :: "pval \<Rightarrow> pval \<Rightarrow> bool" where
  "strict_eq (PNum a) (PNum b) = (a = b)"
| "strict_eq PUndefined PUndefined = True"
| "strict_eq a b = False"

section \<open>The service \<open>$interval\<close>\<close>

definition interval_start :: "timer_fn \<Rightarrow> int option \<Rightarrow> state \<Rightarrow> nat \<times> state" where
  "interval_start f d s =
     (next_timer s,
      s\<lparr>timers := timers s @ [(next_timer s, f, d)], next_timer := Suc (next_timer s)\<rparr>)"

text \<open>\<open>$interval.cancel(promise)\<close>: nothing happens for \<open>null\<close> or \<open>undefined\<close>.\<close>

definition interval_cancel :: "nat option \<Rightarrow> state \<Rightarrow> state" where
  "interval_cancel h s =
     (case h of
        None \<Rightarrow> s
      | Some i \<Rightarrow> s\<lparr>timers := filter (\<lambda>t. fst t \<noteq> i) (timers s)\<rparr>)"

definition intervals_get :: "state \<Rightarrow> string \<Rightarrow> nat option" where
  "intervals_get s k = (case intervals s k of None \<Rightarrow> None | Some h \<Rightarrow> h)"

section \<open>Accessors of \<open>dfpRefresh\<close>\<close>

definition hasBufferInterval :: "state \<Rightarrow> bool" where
  "hasBufferInterval s = (bufferInterval (self s) \<noteq> None)"

definition hasBufferBarrier :: "state \<Rightarrow> bool" where
  "hasBufferBarrier s = (bufferBarrier (self s) \<noteq> None)"

definition hasRefreshInterval :: "state \<Rightarrow> bool" where
  "hasRefreshInterval s = (refreshInterval (self s) \<noteq> None)"

definition bufferIntervalIsEnabled :: "state \<Rightarrow> bool" where
  "bufferIntervalIsEnabled s = isEnabled_interval s"

definition bufferBarrierIsEnabled :: "state \<Rightarrow> bool" where
  "bufferBarrierIsEnabled s = isEnabled_barrier s"

definition refreshIntervalIsEnabled :: "state \<Rightarrow> bool" where
  "refreshIntervalIsEnabled s = isEnabled_refresh s"

text \<open>\<open>dfpRefresh.has\<close>: the \<open>switch\<close> compares the argument with the values of \<open>Options\<close>.\<close>

definition has :: "state \<Rightarrow> string \<Rightarrow> error + bool" where
  "has s option =
     (if option = ''refresh'' then Inr (hasRefreshInterval s)
      else if option = ''interval'' then Inr (hasBufferInterval s)
      else if option = ''barrier'' then Inr (hasBufferBarrier s)
      else Inl (DFPRefreshError (InvalidOption option)))"

text \<open>\<open>ensureValidOption\<close>: \<open>option in Options\<close> looks the argument up among the keys.\<close>

definition ensureValidOption :: "string \<Rightarrow> error option" where
  "ensureValidOption option =
     (if option \<in> set (map fst Options) \<or> option \<in> set object_prototype_keys then None
      else Some (DFPRefreshError (InvalidOption option)))"

definition ensureValidPriority :: "jsval option \<Rightarrow> error option" where
  "ensureValidPriority p =
     (case p of Some (JNumber n) \<Rightarrow> None | _ \<Rightarrow> Some (DFPRefreshError PriorityNotANumber))"

text \<open>The method \<open>dfpRefresh.isEnabled\<close> (the flags are the object \<open>isEnabled\<close>).\<close>

definition dfpRefresh_isEnabled :: "state \<Rightarrow> string \<Rightarrow> error + flagval" where
  "dfpRefresh_isEnabled s option =
     (case ensureValidOption option of
        Some e \<Rightarrow> Inl e
      | None \<Rightarrow> Inr (isEnabled_get s option))"

text \<open>\<open>[Options.BARRIER, Options.INTERVAL].some(dfpRefresh.isEnabled)\<close>\<close>

definition isBuffering :: "state \<Rightarrow> error + bool" where
  "isBuffering s = some_js (dfpRefresh_isEnabled s) [''barrier'', ''interval'']"

definition setPriority :: "string \<Rightarrow> jsval option \<Rightarrow> state \<Rightarrow> error option \<times> state" where
  "setPriority option p s =
     (case ensureValidOption option of
        Some e \<Rightarrow> (Some e, s)
      | None \<Rightarrow>
          (case p of
             Some (JNumber n) \<Rightarrow>
               (None, s\<lparr>self := (self s)\<lparr>priority := (priority (self s))(option \<mapsto> n)\<rparr>\<rparr>)
           | _ \<Rightarrow> (Some (DFPRefreshError PriorityNotANumber), s)))"

definition getPriority :: "state \<Rightarrow> string \<Rightarrow> error + pval" where
  "getPriority s option =
     (case ensureValidOption option of
        Some e \<Rightarrow> Inl e
      | None \<Rightarrow> Inr (priority_get s option))"

text \<open>The three wrappers call \<open>setPriority\<close> with the option only.\<close>

definition setRefreshPriority :: "jsval option \<Rightarrow> state \<Rightarrow> error option \<times> state" where
  "setRefreshPriority p s = setPriority ''refresh'' None s"

definition setBarrierPriority :: "jsval option \<Rightarrow> state \<Rightarrow> error option \<times> state" where
  "setBarrierPriority p s = setPriority ''barrier'' None s"

definition setIntervalPriority :: "jsval option \<Rightarrow> state \<Rightarrow> error option \<times> state" where
  "setIntervalPriority p s =
     (case ensureValidPriority p of
        Some e \<Rightarrow> (Some e, s)
      | None \<Rightarrow> setPriority ''interval'' None s)"

section \<open>Dispatch\<close>

text \<open>
  \<open>tasks.filter(function (pair) { return pair.slot !== null; })\<close>: reading \<open>pair.slot\<close>
  of an entry that is \<open>null\<close> throws a \<open>TypeError\<close>.
\<close>

fun filter_slots :: "task option list \<Rightarrow> error + task list" where
  "filter_slots [] = Inr []"
| "filter_slots (None # ps) = Inl TypeError"
| "filter_slots (Some t # ps) =
     (case filter_slots ps of
        Inl e \<Rightarrow> Inl e
      | Inr ts \<Rightarrow> Inr (if slot t \<noteq> None then t # ts else ts))"

text \<open>
  \<open>refresh(tasks)\<close>; no argument is \<open>None\<close>. Without argument the function refreshes all
  slots and then reads \<open>tasks.length\<close> of \<open>undefined\<close>, a \<open>TypeError\<close>.
\<close>

definition refresh :: "task option list option \<Rightarrow> state \<Rightarrow> error option \<times> state" where
  "refresh tasks s =
     (let s1 = (if tasks = None then s\<lparr>calls := calls s @ [RefreshAll]\<rparr> else s)
      in case tasks of
           None \<Rightarrow> (Some TypeError, s1)
         | Some ps \<Rightarrow>
             if length ps = 0 then (None, s1)
             else (case filter_slots ps of
                     Inl e \<Rightarrow> (Some e, s1)
                   | Inr ts \<Rightarrow> (None, s1\<lparr>calls := calls s1 @ [CmdPush ts]\<rparr>)))"

definition flushBuffer :: "state \<Rightarrow> error option \<times> state" where
  "flushBuffer s =
     (case refresh (Some (buffer s)) s of
        (Some e, s1) \<Rightarrow> (Some e, s1)
      | (None, s1) \<Rightarrow> (None, s1\<lparr>buffer := []\<rparr>))"

text \<open>\<open>buffer.fill(null)\<close>\<close>

definition fill_null :: "task option list \<Rightarrow> task option list" where
  "fill_null b = map (\<lambda>p. None) b"

text \<open>The callback \<open>task\<close> of \<open>enableRefreshInterval\<close>, run at each tick of the global timer.\<close>

definition refreshIntervalTask :: "state \<Rightarrow> error option \<times> state" where
  "refreshIntervalTask s = refresh None (s\<lparr>buffer := fill_null (buffer s)\<rparr>)"

text \<open>The callback \<open>task\<close> of \<open>enableBufferInterval\<close>, run at each tick of the buffer timer.\<close>

definition bufferIntervalTask :: "state \<Rightarrow> error option \<times> state" where
  "bufferIntervalTask s =
     (case refresh (Some (buffer s)) s of
        (Some e, s1) \<Rightarrow> (Some e, s1)
      | (None, s1) \<Rightarrow> (None, s1\<lparr>buffer := fill_null (buffer s1)\<rparr>))"

section \<open>Enabling and disabling the mechanisms\<close>

definition enableRefreshInterval :: "state \<Rightarrow> state" where
  "enableRefreshInterval s =
     (case interval_start RefreshTask (refreshInterval (self s)) s of
        (promise, s1) \<Rightarrow>
          s1\<lparr>intervals := (intervals s1)(''refresh'' \<mapsto> Some promise),
             isEnabled_refresh := True\<rparr>)"

definition disableRefreshInterval :: "state \<Rightarrow> state" where
  "disableRefreshInterval s =
     (if isEnabled_refresh s then
        (interval_cancel (intervals_get s ''refresh'') s)
          \<lparr>intervals := (intervals s)(''refresh'' \<mapsto> None), isEnabled_refresh := False\<rparr>
      else s)"

definition enableBufferInterval :: "state \<Rightarrow> state" where
  "enableBufferInterval s =
     (case interval_start BufferTask (bufferInterval (self s)) s of
        (promise, s1) \<Rightarrow>
          s1\<lparr>intervals := (intervals s1)(''buffer'' \<mapsto> Some promise),
             isEnabled_interval := True\<rparr>)"

definition disableBufferInterval :: "state \<Rightarrow> state" where
  "disableBufferInterval s =
     (if isEnabled_interval s then
        (interval_cancel (intervals_get s ''buffer'') s)
          \<lparr>intervals := (intervals s)(''buffer'' \<mapsto> None), isEnabled_interval := False\<rparr>
      else s)"

definition enableBufferBarrier :: "state \<Rightarrow> state" where
  "enableBufferBarrier s = s\<lparr>isEnabled_barrier := True\<rparr>"

definition disableBufferBarrier :: "state \<Rightarrow> state" where
  "disableBufferBarrier s = s\<lparr>isEnabled_barrier := False\<rparr>"

text \<open>The \<open>default\<close> branch of both switches is a \<open>console.assert\<close>, which changes nothing.\<close>

definition disable :: "string \<Rightarrow> state \<Rightarrow> state" where
  "disable option s =
     (if option = ''refresh'' then disableRefreshInterval s
      else if option = ''interval'' then disableBufferInterval s
      else if option = ''barrier'' then disableBufferBarrier s
      else s)"

definition enable :: "string \<Rightarrow> bool option \<Rightarrow> state \<Rightarrow> state" where
  "enable option yes s =
     (if yes = Some False then disable option s
      else if option = ''refresh'' then enableRefreshInterval s
      else if option = ''interval'' then enableBufferInterval s
      else if option = ''barrier'' then enableBufferBarrier s
      else s)"

section \<open>The prioritization algorithm\<close>

text \<open>The loop over \<open>available\<close> and \<open>priorities\<close>, index by index.\<close>

fun prioritize_loop :: "pval \<Rightarrow> (string \<times> pval) list \<Rightarrow> state \<Rightarrow> state" where
  "prioritize_loop maximum [] s = s"
| "prioritize_loop maximum ((option, p) # rest) s =
     prioritize_loop maximum rest
       (if strict_eq p maximum then enable option None s else disable option s)"

text \<open>
  \<open>prioritize()\<close>: \<open>Object.keys(Options)\<close>, filtered by \<open>dfpRefresh.has\<close>; \<open>reduce\<close>
  without initial value throws a \<open>TypeError\<close> on an empty array.
\<close>

definition prioritize :: "state \<Rightarrow> error option \<times> state" where
  "prioritize s =
     (case filter_js (has s) (map fst Options) of
        Inl e \<Rightarrow> (Some e, s)
      | Inr available \<Rightarrow>
          (case map (priority_get s) available of
             [] \<Rightarrow> (Some TypeError, s)
           | p # ps \<Rightarrow>
               (None, prioritize_loop (foldl math_max p ps)
                        (zip available (p # ps)) s)))"

section \<open>Configuration of the mechanisms\<close>

definition warn :: "string \<Rightarrow> state \<Rightarrow> state" where
  "warn msg s = s\<lparr>warnings := warnings s @ [msg]\<rparr>"

definition setBufferInterval :: "jsval \<Rightarrow> state \<Rightarrow> error option \<times> state" where
  "setBufferInterval interval s =
     (case dfpParseDuration interval of
        Inl e \<Rightarrow> (Some e, s)
      | Inr ms \<Rightarrow> prioritize (s\<lparr>self := (self s)\<lparr>bufferInterval := Some ms\<rparr>\<rparr>))"

definition clearBufferInterval :: "state \<Rightarrow> error option \<times> state" where
  "clearBufferInterval s =
     (if \<not> hasBufferInterval s then
        (None, warn ''clearBufferInterval had no effect because no interval was set.'' s)
      else
        (let s1 = disableBufferInterval s
         in prioritize (s1\<lparr>self := (self s1)\<lparr>bufferInterval := None\<rparr>\<rparr>)))"

definition setBufferBarrier :: "int \<Rightarrow> bool option \<Rightarrow> state \<Rightarrow> error option \<times> state" where
  "setBufferBarrier numberOfAds oneShot s =
     prioritize
       (s\<lparr>self := (self s)\<lparr>bufferBarrier := Some numberOfAds,
                            oneShotBarrier := (case oneShot of None \<Rightarrow> True | Some b \<Rightarrow> b)\<rparr>\<rparr>)"

definition clearBufferBarrier :: "state \<Rightarrow> error option \<times> state" where
  "clearBufferBarrier s =
     (if \<not> hasBufferBarrier s then
        (None, warn ''clearBufferBarrier had not effect because no barrier was set.'' s)
      else prioritize (s\<lparr>self := (self s)\<lparr>bufferBarrier := None\<rparr>\<rparr>))"

definition setRefreshInterval :: "jsval \<Rightarrow> state \<Rightarrow> error option \<times> state" where
  "setRefreshInterval interval s =
     (case dfpParseDuration interval of
        Inl e \<Rightarrow> (Some e, s)
      | Inr ms \<Rightarrow>
          prioritize
            (enableRefreshInterval (s\<lparr>self := (self s)\<lparr>refreshInterval := Some ms\<rparr>\<rparr>)))"

text \<open>
  \<open>clearRefreshInterval\<close>: after the warning the function goes on (there is no \<open>return\<close>
  in the branch), and it leaves \<open>self.refreshInterval\<close> as it is.
\<close>

definition clearRefreshInterval :: "state \<Rightarrow> error option \<times> state" where
  "clearRefreshInterval s =
     (let s1 = (if \<not> hasRefreshInterval s then
                  warn ''clearRefreshInterval had no effect because no refresh interval was set.'' s
                else s)
      in prioritize (disableRefreshInterval s1))"

section \<open>Requests\<close>

text \<open>\<open>bufferRefresh(task)\<close>; \<open>buffer.length === self.bufferBarrier\<close> is false for \<open>null\<close>.\<close>

definition bufferRefresh :: "task \<Rightarrow> state \<Rightarrow> error option \<times> state" where
  "bufferRefresh t s =
     (let s1 = s\<lparr>buffer := buffer s @ [Some t]\<rparr>
      in if \<not> isEnabled_barrier s1 then (None, s1)
         else if bufferBarrier (self s1) = Some (int (length (buffer s1))) then
           (case flushBuffer s1 of
              (Some e, s2) \<Rightarrow> (Some e, s2)
            | (None, s2) \<Rightarrow>
                if oneShotBarrier (self s2) then clearBufferBarrier s2 else (None, s2))
         else (None, s1))"

definition scheduleRefresh :: "task \<Rightarrow> state \<Rightarrow> error option \<times> state" where
  "scheduleRefresh t s =
     (case isBuffering s of
        Inl e \<Rightarrow> (Some e, s)
      | Inr b \<Rightarrow> if b then bufferRefresh t s else refresh (Some [Some t]) s)"

text \<open>\<open>addSlotInterval\<close> stores the new timer under the slot's key, whatever is there.\<close>

definition addSlotInterval :: "task \<Rightarrow> jsval \<Rightarrow> state \<Rightarrow> error option \<times> state" where
  "addSlotInterval t interval s =
     (case dfpParseDuration interval of
        Inl e \<Rightarrow> (Some e, s)
      | Inr ms \<Rightarrow>
          (case interval_start (SlotTask t) (Some ms) s of
             (promise, s1) \<Rightarrow>
               (None, s1\<lparr>intervals := (intervals s1)(slot_key (slot t) \<mapsto> Some promise)\<rparr>)))"

text \<open>
  \<open>dfpRefresh(slot, interval, callback)\<close>. Its first statement is \<open>Promise.defer()\<close>, which
  is not a function of the ECMAScript standard: \<open>promise_defer\<close> says whether the host
  provides it. Where it does not, the call of \<open>undefined\<close> throws a \<open>TypeError\<close> before
  anything else happens; where it does, the deferred created is numbered \<open>next_deferred\<close>.
  A function in the place of the interval is the callback, and the interval is then
  \<open>undefined\<close>.
\<close>

definition dfpRefresh ::
  "bool \<Rightarrow> string option \<Rightarrow> jsval option \<Rightarrow> state \<Rightarrow> error option \<times> state" where
  "dfpRefresh promise_defer sl interval s =
     (if \<not> promise_defer then (Some TypeError, s)
      else
        (let t = \<lparr>slot = sl, deferred = next_deferred s\<rparr>;
             s1 = s\<lparr>next_deferred := Suc (next_deferred s)\<rparr>
         in case (if interval = Some JFunction then None else interval) of
              None \<Rightarrow> scheduleRefresh t s1
            | Some i \<Rightarrow> addSlotInterval t i s1))"

text \<open>\<open>slot in self.intervals\<close> throws a \<open>TypeError\<close> when \<open>self.intervals\<close> is \<open>undefined\<close>.\<close>

definition hasSlotInterval :: "state \<Rightarrow> string option \<Rightarrow> error + bool" where
  "hasSlotInterval s sl =
     (case self_intervals (self s) of
        None \<Rightarrow> Inl TypeError
      | Some m \<Rightarrow> Inr (slot_key sl \<in> dom m \<or> slot_key sl \<in> set object_prototype_keys))"

definition cancelInterval :: "string option \<Rightarrow> state \<Rightarrow> error option \<times> state" where
  "cancelInterval sl s =
     (case hasSlotInterval s sl of
        Inl e \<Rightarrow> (Some e, s)
      | Inr b \<Rightarrow>
          if b then
            (None, (interval_cancel (intervals_get s (slot_key sl)) s)
                     \<lparr>intervals := (intervals s)(slot_key sl := None)\<rparr>)
          else (Some (DFPRefreshError NoIntervalForSlot), s))"

section \<open>Timer ticks and construction\<close>

text \<open>A tick of the timer with handle \<open>i\<close> runs its callback; a cancelled timer does not fire.\<close>

definition fire :: "nat \<Rightarrow> state \<Rightarrow> error option \<times> state" where
  "fire i s =
     (case map_of (timers s) i of
        None \<Rightarrow> (None, s)
      | Some (RefreshTask, d) \<Rightarrow> refreshIntervalTask s
      | Some (BufferTask, d) \<Rightarrow> bufferIntervalTask s
      | Some (SlotTask t, d) \<Rightarrow> scheduleRefresh t s)"

text \<open>\<open>$get\<close> builds the state and ends with \<open>prioritize()\<close>.\<close>

definition construct :: "provider \<Rightarrow> error option \<times> state" where
  "construct p = prioritize (state0 p)"

section \<open>Example inputs\<close>

definition task_a :: task where
  "task_a = \<lparr>slot = Some ''ad1'', deferred = 0\<rparr>"

text \<open>A barrier of two, enabled, and a buffer whose one entry a timer tick has set to \<open>null\<close>.\<close>

definition state_null_padded :: state where
  "state_null_padded =
     (state0 (provider_defaults\<lparr>bufferBarrier := Some 2\<rparr>))\<lparr>buffer := [None]\<rparr>"

text \<open>The default configuration with one task in the buffer.\<close>

definition state_one_buffered :: state where
  "state_one_buffered = (state0 provider_defaults)\<lparr>buffer := [Some task_a]\<rparr>"

text \<open>A provider configured without global refresh interval.\<close>

definition provider_no_refresh :: provider where
  "provider_no_refresh = provider_defaults\<lparr>refreshInterval := None\<rparr>"

text \<open>The state after \<open>addSlotInterval\<close> has registered an interval of 1000 ms for slot ad1.\<close>

definition state_slot_registered :: state where
  "state_slot_registered =
     snd (addSlotInterval task_a (JNumber 1000) (state0 provider_defaults))"

text \<open>The state after \<open>setRefreshInterval('1s')\<close> and \<open>setRefreshInterval('2s')\<close>.\<close>

definition state_two_sweeps :: state where
  "state_two_sweeps =
     snd (setRefreshInterval (JString ''2s'')
       (snd (setRefreshInterval (JString ''1s'') (state0 provider_defaults))))"

text \<open>A provider configured without buffer interval and without global refresh interval.\<close>

definition provider_unconfigured :: provider where
  "provider_unconfigured = provider_defaults\<lparr>bufferInterval := None, refreshInterval := None\<rparr>"

text \<open>
  A sequence of calls \<open>dfpRefresh(slot)\<close>, one for each slot of the list, each with its
  outcome (the caller goes on after an exception), on a host with or without
  \<open>Promise.defer\<close>.
\<close>

fun run_requests ::
  "bool \<Rightarrow> string option list \<Rightarrow> state \<Rightarrow> error option list \<times> state" where
  "run_requests promise_defer [] s = ([], s)"
| "run_requests promise_defer (sl # sls) s =
     (case dfpRefresh promise_defer sl None s of
        (r, s1) \<Rightarrow>
          (case run_requests promise_defer sls s1 of (rs, s2) \<Rightarrow> (r # rs, s2)))"

section \<open>Properties of the duration parser\<close>

lemmas parser_defs =
  dfpParseDuration_def convert_def group_def convertToMilliseconds_def parseInt10_def
  digit_value_def is_digit_def match_unit_def Let_def

lemma dfpParseDuration_number: "dfpParseDuration (JNumber n) = Inr n"
  by (simp add: dfpParseDuration_def)

lemma dfpParseDuration_not_string_or_number:
  "dfpParseDuration JOther = Inl TypeError \<and> dfpParseDuration JFunction = Inl TypeError"
  by (simp add: dfpParseDuration_def)

lemma dfpParseDuration_examples:
  "dfpParseDuration (JString ''5min'') = Inr 300000 \<and>
   dfpParseDuration (JNumber 1500) = Inr 1500 \<and>
   dfpParseDuration (JString ''bogus'') = Inl (DFPDurationError ''bogus'')"
  by (simp add: parser_defs)

text \<open>
  The match on a string that starts with a run of digits \<open>ds\<close>, followed by a rest that
  does not start with a digit.
\<close>

lemma regex_match_digits:
  assumes "ds \<noteq> []" and "list_all is_digit ds" and "r = [] \<or> \<not> is_digit (hd r)"
  shows "regex_match (ds @ r) =
           Some [Some (ds @ (case match_unit r of None \<Rightarrow> [] | Some x \<Rightarrow> x)),
                 Some ds, match_unit r]"
proof -
  from assms(1) obtain d ds' where ds: "ds = d # ds'"
    by (cases ds) auto
  have digits: "\<And>x. x \<in> set ds \<Longrightarrow> is_digit x"
    using assms(2) by (simp add: list_all_iff)
  have rest: "takeWhile is_digit r = []" "dropWhile is_digit r = r"
    using assms(3) by (cases r; simp)+
  have tw: "takeWhile is_digit (ds @ r) = ds"
    using digits rest by simp
  have dw: "dropWhile is_digit (ds @ r) = r"
    using digits rest by simp
  have "is_digit d"
    using digits ds by simp
  then have "regex_match (d # (ds' @ r)) =
      Some [Some (takeWhile is_digit (d # (ds' @ r)) @
                  (case match_unit (dropWhile is_digit (d # (ds' @ r))) of
                     None \<Rightarrow> [] | Some x \<Rightarrow> x)),
            Some (takeWhile is_digit (d # (ds' @ r))),
            match_unit (dropWhile is_digit (d # (ds' @ r)))]"
    by (simp only: regex_match.simps Let_def if_True)
  then show ?thesis
    using tw dw ds by simp
qed

lemma dfpParseDuration_digits:
  assumes "ds \<noteq> []" and "list_all is_digit ds" and "r = [] \<or> \<not> is_digit (hd r)"
  shows "dfpParseDuration (JString (ds @ r)) =
           Inr (convertToMilliseconds (parseInt10 ds) (match_unit r))"
  using regex_match_digits [OF assms]
  by (simp add: dfpParseDuration_def convert_def group_def)

text \<open>The unit table, for a number written with a unit.\<close>

lemma dfpParseDuration_ms:
  "ds \<noteq> [] \<Longrightarrow> list_all is_digit ds \<Longrightarrow>
   dfpParseDuration (JString (ds @ ''ms'')) = Inr (parseInt10 ds)"
  by (simp add: dfpParseDuration_digits is_digit_def match_unit_def convertToMilliseconds_def)

lemma dfpParseDuration_s:
  "ds \<noteq> [] \<Longrightarrow> list_all is_digit ds \<Longrightarrow>
   dfpParseDuration (JString (ds @ ''s'')) = Inr (parseInt10 ds * 1000)"
  by (simp add: dfpParseDuration_digits is_digit_def match_unit_def convertToMilliseconds_def)

lemma dfpParseDuration_min:
  "ds \<noteq> [] \<Longrightarrow> list_all is_digit ds \<Longrightarrow>
   dfpParseDuration (JString (ds @ ''min'')) = Inr (parseInt10 ds * 60000)"
  by (simp add: dfpParseDuration_digits is_digit_def match_unit_def convertToMilliseconds_def)

lemma dfpParseDuration_h:
  "ds \<noteq> [] \<Longrightarrow> list_all is_digit ds \<Longrightarrow>
   dfpParseDuration (JString (ds @ ''h'')) = Inr (parseInt10 ds * 3600000)"
  by (simp add: dfpParseDuration_digits is_digit_def match_unit_def convertToMilliseconds_def)

text \<open>A number written without unit is taken as hours: the match array never has length 2.\<close>

lemma dfpParseDuration_no_unit:
  "ds \<noteq> [] \<Longrightarrow> list_all is_digit ds \<Longrightarrow>
   dfpParseDuration (JString ds) = Inr (parseInt10 ds * 3600000)"
  using dfpParseDuration_digits [of ds "[]"]
  by (simp add: match_unit_def convertToMilliseconds_def)

lemma dfpParseDuration_no_digit:
  assumes "list_all (\<lambda>c. \<not> is_digit c) str"
  shows "dfpParseDuration (JString str) = Inl (DFPDurationError str)"
proof -
  have "list_all (\<lambda>c. \<not> is_digit c) xs \<Longrightarrow> regex_match xs = None" for xs
    by (induction xs) auto
  with assms show ?thesis
    by (simp add: dfpParseDuration_def)
qed

text \<open>
  Claim C9. The parser returns a number unchanged, converts a number with unit 'ms', 's',
  'min' or 'h' by the unit table, and rejects a string without digit and a value that is
  neither string nor number (the lemmas above). A string without unit is not taken as
  milliseconds: the string "1500" gives 1500 hours, 5400000000 ms, where the claim and the
  comment "No unit means milliseconds" say 1500.
\<close>

theorem dfpParseDuration_no_unit_is_hours:
  "dfpParseDuration (JString ''1500'') = Inr 5400000000 \<and>
   dfpParseDuration (JString ''1500'') \<noteq> Inr 1500"
  by (simp add: parser_defs)

section \<open>Properties of the service\<close>

subsection \<open>Option names\<close>

text \<open>
  \<open>dfpRefresh.has\<close> knows the values of \<open>Options\<close> and rejects its keys;
  \<open>ensureValidOption\<close> knows the keys and rejects the values.
\<close>

lemma has_upper_case_raises:
  "has s ''REFRESH'' = Inl (DFPRefreshError (InvalidOption ''REFRESH''))"
  by (simp add: has_def)

lemma prioritize_raises:
  "prioritize s = (Some (DFPRefreshError (InvalidOption ''REFRESH'')), s)"
  by (simp add: prioritize_def Options_def has_upper_case_raises)

lemma isEnabled_lower_case_raises:
  "dfpRefresh_isEnabled s ''barrier'' = Inl (DFPRefreshError (InvalidOption ''barrier''))"
  by (simp add: dfpRefresh_isEnabled_def ensureValidOption_def Options_def
      object_prototype_keys_def)

lemma isBuffering_raises:
  "isBuffering s = Inl (DFPRefreshError (InvalidOption ''barrier''))"
  by (simp add: isBuffering_def isEnabled_lower_case_raises)

lemma setPriority_lower_case_raises:
  "setPriority ''barrier'' (Some (JNumber 5)) s =
     (Some (DFPRefreshError (InvalidOption ''barrier'')), s)"
  by (simp add: setPriority_def ensureValidOption_def Options_def object_prototype_keys_def)

text \<open>With a key of \<open>Options\<close> the weight is stored, under that key, and nothing is re-run.\<close>

lemma setPriority_upper_case:
  "setPriority ''BARRIER'' (Some (JNumber 5)) s =
     (None, s\<lparr>self := (self s)\<lparr>priority := (priority (self s))(''BARRIER'' \<mapsto> 5)\<rparr>\<rparr>)"
  by (simp add: setPriority_def ensureValidOption_def Options_def)

text \<open>
  Claim C1. The prioritization algorithm does not enable the installed mechanisms of
  maximum weight: in every state \<open>prioritize\<close> throws "Invalid option 'REFRESH'" from
  its first step and changes no flag. After \<open>setBufferBarrier(3)\<close> on the default
  configuration the three mechanisms are installed with equal weight 1, and the barrier
  is left disabled.
\<close>

theorem prioritize_enables_nothing:
  "prioritize s = (Some (DFPRefreshError (InvalidOption ''REFRESH'')), s) \<and>
   fst (setBufferBarrier 3 None (state0 provider_defaults)) =
     Some (DFPRefreshError (InvalidOption ''REFRESH'')) \<and>
   has (snd (setBufferBarrier 3 None (state0 provider_defaults))) ''barrier'' = Inr True \<and>
   map (priority_get (snd (setBufferBarrier 3 None (state0 provider_defaults))))
     [''refresh'', ''interval'', ''barrier''] = [PNum 1, PNum 1, PNum 1] \<and>
   isEnabled_barrier (snd (setBufferBarrier 3 None (state0 provider_defaults))) = False"
  by (simp add: prioritize_raises setBufferBarrier_def has_def hasBufferBarrier_def
      state0_def provider_defaults_def priority_get_def)

text \<open>
  Claim C3. \<open>isBuffering()\<close> does not return: in every state it throws
  "Invalid option 'barrier'", whatever the flags of the Interval and Barrier mechanisms.
\<close>

theorem isBuffering_never_returns:
  "isBuffering s = Inl (DFPRefreshError (InvalidOption ''barrier'')) \<and>
   isBuffering s \<noteq> Inr (isEnabled_interval s \<or> isEnabled_barrier s)"
  by (simp add: isBuffering_raises)

lemma dfpRefresh_without_promise_defer:
  "dfpRefresh False sl i s = (Some TypeError, s)"
  by (simp add: dfpRefresh_def)

lemma dfpRefresh_no_interval:
  "dfpRefresh True sl None s =
     (Some (DFPRefreshError (InvalidOption ''barrier'')),
      s\<lparr>next_deferred := Suc (next_deferred s)\<rparr>)"
  by (simp add: dfpRefresh_def scheduleRefresh_def isBuffering_raises)

lemma run_requests_raise:
  "run_requests True sls s =
     (replicate (length sls) (Some (DFPRefreshError (InvalidOption ''barrier''))),
      s\<lparr>next_deferred := next_deferred s + length sls\<rparr>)"
proof (induction sls arbitrary: s)
  case Nil
  show ?case by simp
next
  case (Cons sl sls)
  show ?case
    by (simp add: dfpRefresh_no_interval Cons.IH)
qed

lemma run_requests_without_promise_defer:
  "run_requests False sls s = (replicate (length sls) (Some TypeError), s)"
  by (induction sls arbitrary: s) (simp_all add: dfpRefresh_without_promise_defer)

lemma run_requests_keep_calls_and_buffer:
  "calls (snd (run_requests promise_defer sls s)) = calls s \<and>
   buffer (snd (run_requests promise_defer sls s)) = buffer s"
  by (cases promise_defer)
    (simp_all add: run_requests_raise run_requests_without_promise_defer)

text \<open>
  Claim C6. Requests without interval dispatch nothing: in every state, also when no
  buffering mechanism is enabled, each call \<open>dfpRefresh(slot)\<close> of a sequence throws, and
  the sequence makes no call to the ad library and buffers nothing. On a host with
  \<open>Promise.defer\<close> the error is "Invalid option 'barrier'" from \<open>isBuffering()\<close>; on a
  host without it the error is the \<open>TypeError\<close> of the first statement.
\<close>

theorem requests_without_interval_raise:
  "fst (run_requests promise_defer sls s) =
     replicate (length sls)
       (Some (if promise_defer then DFPRefreshError (InvalidOption ''barrier'')
              else TypeError)) \<and>
   calls (snd (run_requests promise_defer sls s)) = calls s \<and>
   buffer (snd (run_requests promise_defer sls s)) = buffer s"
  by (cases promise_defer)
    (simp_all add: run_requests_raise run_requests_without_promise_defer)

text \<open>
  A barrier of three and three requests, nothing else installed: \<open>setBufferBarrier(3)\<close>
  ends with the error of \<open>prioritize\<close> and leaves the barrier disabled, the requests
  throw, and nothing is buffered or dispatched.
\<close>

lemma barrier_of_three_never_flushes:
  "fst (setBufferBarrier 3 None (state0 provider_unconfigured)) =
     Some (DFPRefreshError (InvalidOption ''REFRESH'')) \<and>
   isEnabled_barrier (snd (setBufferBarrier 3 None (state0 provider_unconfigured))) = False \<and>
   calls (snd (run_requests promise_defer [Some ''ad1'', Some ''ad2'', Some ''ad3'']
                 (snd (setBufferBarrier 3 None (state0 provider_unconfigured))))) = [] \<and>
   buffer (snd (run_requests promise_defer [Some ''ad1'', Some ''ad2'', Some ''ad3'']
                  (snd (setBufferBarrier 3 None (state0 provider_unconfigured))))) = []"
  by (simp add: run_requests_keep_calls_and_buffer setBufferBarrier_def prioritize_raises
      state0_def provider_unconfigured_def provider_defaults_def
      del: run_requests.simps)

subsection \<open>Dispatch and the timer callbacks\<close>

lemma filter_slots_tasks:
  "filter_slots (map Some ts) = Inr (filter (\<lambda>t. slot t \<noteq> None) ts)"
  by (induction ts) auto

text \<open>One \<open>null\<close> entry anywhere makes the filter of \<open>refresh\<close> throw.\<close>

lemma filter_slots_null_entry: "None \<in> set ps \<Longrightarrow> filter_slots ps = Inl TypeError"
  by (induction ps rule: filter_slots.induct) auto

lemma refresh_null_entry:
  "None \<in> set ps \<Longrightarrow> refresh (Some ps) s = (Some TypeError, s)"
  by (cases ps) (simp_all add: refresh_def filter_slots_null_entry)

text \<open>
  Claim C2. When the request that fills the barrier meets a buffer entry that is \<open>null\<close>,
  no batch is dispatched: with a barrier of two enabled and the buffer \<open>[null]\<close>,
  \<open>bufferRefresh\<close> appends the task, finds the length equal to the barrier, and
  \<open>refresh\<close> throws a \<open>TypeError\<close> when it reads \<open>pair.slot\<close> of the \<open>null\<close> entry. The
  buffer keeps both entries and the ad library is not called.
\<close>

theorem bufferRefresh_null_entry_raises:
  "isEnabled_barrier state_null_padded \<and>
   bufferBarrier (self state_null_padded) = Some 2 \<and>
   bufferRefresh task_a state_null_padded =
     (Some TypeError, state_null_padded\<lparr>buffer := [None, Some task_a]\<rparr>) \<and>
   calls (snd (bufferRefresh task_a state_null_padded)) = []"
  by (simp add: bufferRefresh_def flushBuffer_def refresh_def state_null_padded_def
      state0_def provider_defaults_def Let_def)

text \<open>
  On a buffer without \<open>null\<close> entry the barrier flushes: one batch of the tasks with a
  slot, the buffer emptied. A one-shot barrier then clears \<open>self.bufferBarrier\<close>, and the
  call ends with the error of \<open>prioritize\<close>, the flag of the barrier still set.
\<close>

lemma bufferRefresh_barrier_reached:
  assumes "isEnabled_barrier s" and "buffer s = map Some ts"
    and "bufferBarrier (self s) = Some (int (length ts) + 1)"
  shows "bufferRefresh t s =
     (if oneShotBarrier (self s)
      then (Some (DFPRefreshError (InvalidOption ''REFRESH'')),
            s\<lparr>buffer := [],
              calls := calls s @ [CmdPush (filter (\<lambda>t. slot t \<noteq> None) (ts @ [t]))],
              self := (self s)\<lparr>bufferBarrier := None\<rparr>\<rparr>)
      else (None,
            s\<lparr>buffer := [],
              calls := calls s @ [CmdPush (filter (\<lambda>t. slot t \<noteq> None) (ts @ [t]))]\<rparr>))"
proof -
  have "filter_slots (map Some ts @ [Some t]) =
          Inr (filter (\<lambda>t. slot t \<noteq> None) (ts @ [t]))"
    using filter_slots_tasks [of "ts @ [t]"] by simp
  then show ?thesis
    using assms
    by (simp add: bufferRefresh_def flushBuffer_def refresh_def Let_def
        clearBufferBarrier_def hasBufferBarrier_def prioritize_raises)
qed

text \<open>
  The buffer-flush timer does not empty the buffer: after a tick on a buffer of one task
  the buffer is \<open>[null]\<close>, of length 1.
\<close>

theorem bufferIntervalTask_keeps_length:
  "buffer (snd (bufferIntervalTask state_one_buffered)) = [None] \<and>
   length (buffer (snd (bufferIntervalTask state_one_buffered))) = 1 \<and>
   buffer (snd (bufferIntervalTask state_one_buffered)) \<noteq> []"
  by (simp add: bufferIntervalTask_def refresh_def fill_null_def state_one_buffered_def
      state0_def task_a_def)

text \<open>
  Claim C4, amended. A tick of the buffer-flush timer on a buffer that holds tasks only
  dispatches the tasks that have a slot as one batch, which resolves their deferreds
  (nothing is dispatched for an empty buffer), and then sets every entry of the buffer to
  \<open>null\<close>: the length of the buffer stays as it was.
\<close>

theorem bufferIntervalTask_fills_null:
  "buffer s = map Some ts \<Longrightarrow>
   bufferIntervalTask s =
     (None,
      s\<lparr>calls := calls s @
                  (if ts = [] then [] else [CmdPush (filter (\<lambda>t. slot t \<noteq> None) ts)]),
        buffer := replicate (length ts) None\<rparr>)"
  by (simp add: bufferIntervalTask_def refresh_def fill_null_def map_replicate_const
      filter_slots_tasks)

theorem bufferIntervalTask_fills_null_witness:
  "buffer state_one_buffered = map Some [task_a] \<and>
   bufferIntervalTask state_one_buffered =
     (None, state_one_buffered\<lparr>calls := [CmdPush [task_a]], buffer := [None]\<rparr>)"
  using bufferIntervalTask_fills_null [of state_one_buffered "[task_a]"]
  by (simp add: state_one_buffered_def state0_def task_a_def)

text \<open>A later tick meets the \<open>null\<close> entries of the earlier one and throws.\<close>

lemma bufferIntervalTask_null_entry:
  "None \<in> set (buffer s) \<Longrightarrow> bufferIntervalTask s = (Some TypeError, s)"
  by (simp add: bufferIntervalTask_def refresh_null_entry)

text \<open>
  Claim C5. A tick of the global refresh timer sets every entry of the buffer to \<open>null\<close>
  and calls \<open>googletag.pubads().refresh()\<close> without argument, once; the length of the
  buffer after the tick is the length before it. (The callback then ends with the
  \<open>TypeError\<close> of \<open>refresh\<close> called without argument.)
\<close>

theorem refreshIntervalTask_preserves_length:
  "refreshIntervalTask s =
     (Some TypeError,
      s\<lparr>buffer := replicate (length (buffer s)) None, calls := calls s @ [RefreshAll]\<rparr>) \<and>
   length (buffer (snd (refreshIntervalTask s))) = length (buffer s)"
  by (simp add: refreshIntervalTask_def refresh_def fill_null_def map_replicate_const)

subsection \<open>The intervals of the slots\<close>

text \<open>
  \<open>cancelInterval\<close> reads \<open>self.intervals\<close>, which the provider never defines: the call
  ends with a \<open>TypeError\<close> and cancels nothing, whether the slot has an interval or not.
\<close>

lemma cancelInterval_raises:
  "self_intervals (self s) = None \<Longrightarrow> cancelInterval sl s = (Some TypeError, s)"
  by (simp add: cancelInterval_def hasSlotInterval_def)

text \<open>
  \<open>addSlotInterval\<close> has no check for an interval registered before: with an interval
  that parses it starts a timer and stores its handle under the slot's key, over the
  handle that was there.
\<close>

lemma addSlotInterval_registers:
  "dfpParseDuration i = Inr ms \<Longrightarrow>
   addSlotInterval t i s =
     (None,
      s\<lparr>timers := timers s @ [(next_timer s, SlotTask t, Some ms)],
        next_timer := Suc (next_timer s),
        intervals := (intervals s)(slot_key (slot t) \<mapsto> Some (next_timer s))\<rparr>)"
  by (simp add: addSlotInterval_def interval_start_def)

lemma dfpRefresh_with_interval:
  "dfpParseDuration i = Inr ms \<Longrightarrow>
   dfpRefresh True sl (Some i) s =
     addSlotInterval \<lparr>slot = sl, deferred = next_deferred s\<rparr> i
       (s\<lparr>next_deferred := Suc (next_deferred s)\<rparr>)"
  by (cases i) (auto simp add: dfpRefresh_def dfpParseDuration_def)

lemma state_slot_registered_eq:
  "intervals state_slot_registered ''ad1'' = Some (Some 0) \<and>
   timers state_slot_registered = [(0, SlotTask task_a, Some 1000)] \<and>
   self_intervals (self state_slot_registered) = None"
  by (simp add: state_slot_registered_def addSlotInterval_def interval_start_def
      dfpParseDuration_def state0_def slot_key_def task_a_def provider_defaults_def)

text \<open>
  Claim C7. The registry does not behave as claimed. \<open>cancelInterval(ad1)\<close> on the
  default state, where slot ad1 has no interval, throws a \<open>TypeError\<close> and not the
  \<open>DFPRefreshError\<close> "No interval for given slot". Where ad1 has a registered interval,
  \<open>cancelInterval(ad1)\<close> throws the same \<open>TypeError\<close>: the timer keeps running and the
  entry stays. A second registration for ad1 is accepted, and two timers then run for
  the slot, the handle of the first one lost.
\<close>

theorem cancelInterval_raises_type_error:
  "cancelInterval (Some ''ad1'') (state0 provider_defaults) =
     (Some TypeError, state0 provider_defaults) \<and>
   fst (cancelInterval (Some ''ad1'') (state0 provider_defaults)) \<noteq>
     Some (DFPRefreshError NoIntervalForSlot) \<and>
   intervals state_slot_registered ''ad1'' = Some (Some 0) \<and>
   timers state_slot_registered = [(0, SlotTask task_a, Some 1000)] \<and>
   cancelInterval (Some ''ad1'') state_slot_registered =
     (Some TypeError, state_slot_registered) \<and>
   fst (addSlotInterval task_a (JNumber 1000) state_slot_registered) = None \<and>
   timers (snd (addSlotInterval task_a (JNumber 1000) state_slot_registered)) =
     [(0, SlotTask task_a, Some 1000), (1, SlotTask task_a, Some 1000)] \<and>
   intervals (snd (addSlotInterval task_a (JNumber 1000) state_slot_registered)) ''ad1'' =
     Some (Some 1)"
  by (simp add: cancelInterval_def hasSlotInterval_def state_slot_registered_def
      addSlotInterval_def interval_start_def dfpParseDuration_def state0_def slot_key_def
      task_a_def provider_defaults_def)

text \<open>No call of \<open>dfpRefresh\<close> defines \<open>self.intervals\<close>.\<close>

lemma dfpRefresh_keeps_self_intervals:
  "self_intervals (self (snd (dfpRefresh promise_defer sl i s))) = self_intervals (self s)"
proof (cases promise_defer)
  case False
  then show ?thesis
    by (simp add: dfpRefresh_without_promise_defer)
next
  case True
  show ?thesis
  proof (cases "if i = Some JFunction then None else i")
    case None
    with True show ?thesis
      by (simp add: dfpRefresh_def scheduleRefresh_def isBuffering_raises)
  next
    case (Some j)
    with True show ?thesis
      by (cases "dfpParseDuration j")
        (simp_all add: dfpRefresh_def addSlotInterval_def interval_start_def)
  qed
qed

subsection \<open>Clearing the global refresh interval\<close>

text \<open>
  Claim C8. Clearing the global refresh interval when none is set is not a no-op with a
  warning: \<open>clearRefreshInterval\<close> warns, goes on, and ends with the error of
  \<open>prioritize\<close>. The sibling \<open>clearBufferBarrier\<close> warns and returns.
\<close>

theorem clearRefreshInterval_unset_raises:
  "hasRefreshInterval (state0 provider_no_refresh) = False \<and>
   clearRefreshInterval (state0 provider_no_refresh) =
     (Some (DFPRefreshError (InvalidOption ''REFRESH'')),
      (state0 provider_no_refresh)
        \<lparr>warnings :=
           [''clearRefreshInterval had no effect because no refresh interval was set.'']\<rparr>) \<and>
   clearBufferBarrier (state0 provider_defaults) =
     (None,
      (state0 provider_defaults)
        \<lparr>warnings := [''clearBufferBarrier had not effect because no barrier was set.'']\<rparr>)"
  by (simp add: clearRefreshInterval_def clearBufferBarrier_def hasRefreshInterval_def
      hasBufferBarrier_def provider_no_refresh_def provider_defaults_def state0_def warn_def
      disableRefreshInterval_def prioritize_raises Let_def)

text \<open>
  \<open>enableRefreshInterval\<close> starts a timer without cancelling the one it replaces in
  \<open>intervals.refresh\<close>. After two calls of \<open>setRefreshInterval\<close> two sweep timers run;
  \<open>clearRefreshInterval\<close> cancels the second, and the first still fires a sweep.
\<close>

lemma clearRefreshInterval_leaves_earlier_timer:
  "map (\<lambda>t. (fst t, fst (snd t))) (timers state_two_sweeps) =
     [(0, RefreshTask), (1, RefreshTask)] \<and>
   map (\<lambda>t. (fst t, fst (snd t))) (timers (snd (clearRefreshInterval state_two_sweeps))) =
     [(0, RefreshTask)] \<and>
   calls (snd (fire 0 (snd (clearRefreshInterval state_two_sweeps)))) = [RefreshAll]"
  by (simp add: state_two_sweeps_def setRefreshInterval_def parser_defs prioritize_raises
      enableRefreshInterval_def interval_start_def state0_def provider_defaults_def
      clearRefreshInterval_def hasRefreshInterval_def disableRefreshInterval_def
      interval_cancel_def intervals_get_def fire_def refreshIntervalTask_def refresh_def
      fill_null_def)

text \<open>With one sweep timer, the one of \<open>intervals.refresh\<close>, the clear leaves none.\<close>

lemma clearRefreshInterval_cancels_registered_timer:
  "timers (snd (clearRefreshInterval
                  (snd (setRefreshInterval (JString ''1s'') (state0 provider_defaults))))) = []"
  by (simp add: setRefreshInterval_def parser_defs prioritize_raises
      enableRefreshInterval_def interval_start_def state0_def provider_defaults_def
      clearRefreshInterval_def hasRefreshInterval_def disableRefreshInterval_def
      interval_cancel_def intervals_get_def)

subsection \<open>The initial state\<close>

text \<open>
  Claim C10. The state that construction builds from the default provider has the buffer
  interval 1000 ms and the global refresh interval 3600000 ms, so \<open>hasBufferInterval()\<close>
  and \<open>hasRefreshInterval()\<close> are true, and the flags of the Interval and Refresh
  mechanisms are set, the flag of the Barrier mechanism is not: a buffering mechanism is
  marked enabled from the start.
\<close>

theorem construct_default_state:
  "bufferInterval (self (snd (construct provider_defaults))) = Some 1000 \<and>
   refreshInterval (self (snd (construct provider_defaults))) = Some 3600000 \<and>
   hasBufferInterval (snd (construct provider_defaults)) \<and>
   hasRefreshInterval (snd (construct provider_defaults)) \<and>
   isEnabled_interval (snd (construct provider_defaults)) \<and>
   isEnabled_refresh (snd (construct provider_defaults)) \<and>
   isEnabled_barrier (snd (construct provider_defaults)) = False \<and>
   (isEnabled_interval (snd (construct provider_defaults)) \<or>
    isEnabled_barrier (snd (construct provider_defaults)))"
  by (simp add: construct_def prioritize_raises state0_def provider_defaults_def
      hasBufferInterval_def hasRefreshInterval_def)

text \<open>The last statement of \<open>$get\<close>, \<open>prioritize()\<close>, throws; it starts no timer.\<close>

lemma construct_raises:
  "construct p = (Some (DFPRefreshError (InvalidOption ''REFRESH'')), state0 p)"
  by (simp add: construct_def prioritize_raises)

end
